theory Spec2Isabelle
  imports Main
begin

section \<open>On-save syntax checking: a model of SyntaxCheckPlugin.py\<close>

text \<open>
  The plugin runs Cargo on the target(s) covering a saved Rust file, reads the compiler's
  JSON diagnostics and turns them into phantoms (message popups) and highlighted regions
  of the editor's views. The model keeps the structure of the Python source: each method
  is one function of the same name, every mutation of the plugin's state is a field of an
  explicit state record, every \<open>print\<close> is an entry of a log, and every exception is a
  value of the type \<open>error\<close>.

  Strings are lists of characters. Paths are compared character by character, as the
  Python does.
\<close>

subsection \<open>String helpers of Python\<close>

definition startswith :: "string \<Rightarrow> string \<Rightarrow> bool" where
  \<comment> \<open>\<open>s.startswith(p)\<close>\<close>
  "startswith s p = (take (length p) s = p)"

fun str_contains :: "string \<Rightarrow> string \<Rightarrow> bool" where
  \<comment> \<open>\<open>sub in s\<close> for strings: \<open>sub\<close> occurs in \<open>s\<close> as a contiguous run\<close>
  "str_contains sub [] = (sub = [])"
| "str_contains sub (c # cs) = (startswith (c # cs) sub \<or> str_contains sub cs)"

subsection \<open>Diagnostic records\<close>

text \<open>
  The JSON records of rustc, with the fields the plugin reads. \<open>expansion\<close> is
  \<open>null\<close> or an object whose \<open>span\<close> field is the span of the macro's call site;
  \<open>code\<close> is \<open>null\<close> or an object with \<open>code\<close> and \<open>explanation\<close>.
\<close>

datatype span = Span
  (file_name: string)
  (line_start: int) (line_end: int)
  (column_start: int) (column_end: int)
  (is_primary: bool)
  (label: "string option")
  (suggested_replacement: "string option")
  (expansion: "span option")

datatype info = Info
  (level: string)
  (message: string)
  (code: "(string \<times> string option) option")
  (spans: "span list")
  (children: "info list")
  (rendered: "string option")

subsection \<open>Resolving macro expansions\<close>

definition in_macro :: "span \<Rightarrow> bool" where
  \<comment> \<open>\<open>'macros>' in span['file_name']\<close>\<close>
  "in_macro sp = str_contains ''macros>'' (file_name sp)"

fun find_span_r :: "span \<Rightarrow> span option" where
  "find_span_r (Span fn ls le cs ce pr lb sr None) =
     (if str_contains ''macros>'' fn then None
      else Some (Span fn ls le cs ce pr lb sr None))"
| "find_span_r (Span fn ls le cs ce pr lb sr (Some e)) =
     (if str_contains ''macros>'' fn then find_span_r e
      else Some (Span fn ls le cs ce pr lb sr (Some e)))"

definition resolve_span :: "span \<Rightarrow> span option" where
  \<comment> \<open>the head of the loop over \<open>info['spans']\<close>: the span that is anchored,
      \<open>None\<close> when the loop goes on to the next span\<close>
  "resolve_span sp = (if str_contains ''macros>'' (file_name sp) then find_span_r sp else Some sp)"

subsection \<open>The editor, the settings and the state of a check run\<close>

text \<open>
  The editor and Python's library are outside the plugin; the calls the plugin makes to
  them are the fields of \<open>editor\<close>. A view is identified by its id (two views are
  equal when their ids are). \<open>find_open_file\<close> is \<open>window.find_open_file\<close>, \<open>None\<close>
  when no view shows the file; \<open>text_point\<close>, \<open>rowcol\<close> and \<open>view_size\<close> are the
  methods of that name of a view.

  \<open>format_error\<close> stands for \<open>msg_template.format(cls, level, msg, extra)\<close>. The
  template has the colour of the settings pasted in with \<open>%\<close>, so \<open>str.format\<close> reads
  the colour as part of the format string and raises when it holds a brace it cannot
  resolve. \<open>format_error colour cls level msg extra\<close> is the text of that exception,
  \<open>None\<close> when \<open>format\<close> returns the content.
\<close>

type_synonym view = nat

datatype region = Region int int

fun region_begin :: "region \<Rightarrow> int" where
  "region_begin (Region a b) = min a b"

fun region_end :: "region \<Rightarrow> int" where
  "region_end (Region a b) = max a b"

datatype extra = NoExtra | ErrorIndexLink string

record editor =
  find_open_file :: "string \<Rightarrow> view option"
  realpath :: "string \<Rightarrow> string"
  text_point :: "view \<Rightarrow> int \<Rightarrow> int \<Rightarrow> int"
  rowcol :: "view \<Rightarrow> int \<Rightarrow> int \<times> int"
  view_size :: "view \<Rightarrow> int"
  format_error :: "string \<Rightarrow> string \<Rightarrow> string \<Rightarrow> string \<Rightarrow> extra \<Rightarrow> string option"

text \<open>The settings the plugin reads, each with the default of its \<open>settings.get\<close>.\<close>

record settings =
  rust_syntax_hide_warnings :: bool
  rust_syntax_error_color :: string
  rust_syntax_warning_color :: string
  rust_syntax_checking_include_tests :: bool

text \<open>
  The exceptions. \<open>FormatError\<close> is an exception of \<open>str.format\<close> (a \<open>ValueError\<close>,
  \<open>KeyError\<close> or \<open>IndexError\<close> of Python), kept apart from the \<open>ValueError\<close> the
  plugin raises itself.
\<close>

datatype error =
    ValueError string
  | AttributeError
  | UnicodeDecodeError
  | IndexError
  | FormatError string

text \<open>What the plugin prints: one constructor for each \<open>print\<close> of the source.\<close>

datatype log_event =
    Running string
  | FailedToRun string string
  | Pprint info
  | SilentMessage string string string

text \<open>
  A phantom as \<open>_add_phantom\<close> receives it. The HTML of the content is the template
  filled with five values, which are kept as fields: the colour, the class, the level,
  the escaped message and the link after it.
\<close>

record phantom =
  ph_view :: view
  ph_region :: region
  ph_color :: string
  ph_cls :: string
  ph_level :: string
  ph_msg :: string
  ph_extra :: extra

text \<open>
  \<open>this_view_found\<close> is the attribute of that name; \<open>regions_by_view\<close> is the
  dictionary of the run, from the id of a view to the regions of each scope.
\<close>

record run_state =
  this_view_found :: bool
  regions_by_view :: "view \<rightharpoonup> (string \<rightharpoonup> region list)"
  phantoms :: "phantom list"
  log :: "log_event list"

text \<open>
  \<open>parent_info\<close> is the dictionary shared by a top-level message and its children:
  empty, or holding the view and region of the last primary message.
\<close>

type_synonym parent_info = "(view \<times> region) option"

type_synonym agg = "parent_info \<times> run_state"

subsection \<open>Adding messages\<close>

definition replace_char :: "char \<Rightarrow> string \<Rightarrow> string \<Rightarrow> string" where
  \<comment> \<open>\<open>s.replace(c, r)\<close> for a single character \<open>c\<close>\<close>
  "replace_char c r s = concat (map (\<lambda>x. if x = c then r else [x]) s)"

definition escape_message :: "string \<Rightarrow> string" where
  \<comment> \<open>\<open>html.escape(message, quote=False).replace('\n', '<br>').replace(' ', '&nbsp;')\<close>\<close>
  "escape_message s =
     replace_char CHR '' '' ''&nbsp;''
       (replace_char (CHR 0x0A) ''<br>''
         (replace_char CHR ''>'' ''&gt;''
           (replace_char CHR ''<'' ''&lt;''
             (replace_char CHR ''&'' ''&amp;'' s))))"

definition text_of :: "string option \<Rightarrow> string" where
  "text_of v = (case v of None \<Rightarrow> [] | Some s \<Rightarrow> s)"

definition base_color :: "settings \<Rightarrow> info \<Rightarrow> string" where
  "base_color cfg info =
     (if level info = ''error'' then rust_syntax_error_color cfg
      else rust_syntax_warning_color cfg)"

definition cls_of :: "info \<Rightarrow> string" where
  "cls_of info = (if level info = ''error'' then ''rust-error'' else ''rust-additional'')"

definition add_region ::
  "(view \<rightharpoonup> (string \<rightharpoonup> region list)) \<Rightarrow> view \<Rightarrow> string \<Rightarrow> region
     \<Rightarrow> (view \<rightharpoonup> (string \<rightharpoonup> region list))" where
  \<comment> \<open>\<open>regions_by_view[vid]['regions'].setdefault(scope, []).append(region)\<close>,
      after the entry of \<open>vid\<close> has been created if it was missing\<close>
  "add_region rbv vid scope r =
     (let d = (case rbv vid of None \<Rightarrow> Map.empty | Some d \<Rightarrow> d);
          rs = (case d scope of None \<Rightarrow> [] | Some rs \<Rightarrow> rs)
      in rbv(vid \<mapsto> d(scope \<mapsto> rs @ [r])))"

definition note_region :: "view \<Rightarrow> info \<Rightarrow> view \<Rightarrow> region \<Rightarrow> run_state \<Rightarrow> run_state" where
  \<comment> \<open>the first half of \<open>add_message\<close>: the flag of the run and the highlighted region\<close>
  "note_region voi info v r st =
     (let st1 = (if v = voi then st\<lparr>this_view_found := True\<rparr> else st);
          scope = (if level info = ''error'' then ''invalid'' else ''info'')
      in st1\<lparr>regions_by_view := add_region (regions_by_view st1) v scope r\<rparr>)"

definition phantom_region :: "editor \<Rightarrow> view \<Rightarrow> region \<Rightarrow> region" where
  \<comment> \<open>a region over several lines is cut down to its last line\<close>
  "phantom_region ed v r =
     (let start = rowcol ed v (region_begin r);
          end' = rowcol ed v (region_end r)
      in if fst start \<noteq> fst end'
         then Region (text_point ed v (fst end') 0) (region_end r)
         else r)"

text \<open>
  \<open>add_message\<close> records the region first and formats the content last: when
  \<open>format\<close> raises, the flag and the region of the message are in the state and no
  phantom has been added.
\<close>

definition add_message ::
  "editor \<Rightarrow> settings \<Rightarrow> view \<Rightarrow> info \<Rightarrow> view \<Rightarrow> region \<Rightarrow> string \<Rightarrow> extra
     \<Rightarrow> run_state \<Rightarrow> (error \<times> run_state) + run_state" where
  "add_message ed cfg voi info v r msg ex st =
     (let st2 = note_region voi info v r st;
          region' = phantom_region ed v r;
          cls = cls_of info;
          message = escape_message msg
      in case format_error ed (base_color cfg info) cls (level info) message ex of
           Some txt \<Rightarrow> Inl (FormatError txt, st2)
         | None \<Rightarrow>
             Inr (st2\<lparr>phantoms := phantoms st2 @
                    [\<lparr>ph_view = v, ph_region = region',
                      ph_color = base_color cfg info, ph_cls = cls, ph_level = level info,
                      ph_msg = message, ph_extra = ex\<rparr>]\<rparr>))"

definition extra_of :: "info \<Rightarrow> extra" where
  \<comment> \<open>the link to the error index, when the code has an explanation\<close>
  "extra_of info =
     (case code info of
        None \<Rightarrow> NoExtra
      | Some (c, expl) \<Rightarrow> if text_of expl \<noteq> [] then ErrorIndexLink c else NoExtra)"

definition with_parent ::
  "parent_info \<Rightarrow> (error \<times> run_state) + run_state \<Rightarrow> (error \<times> run_state) + agg" where
  \<comment> \<open>the outcome of adding a message, paired with the \<open>parent_info\<close> of the moment\<close>
  "with_parent p res = (case res of Inl e \<Rightarrow> Inl e | Inr st \<Rightarrow> Inr (p, st))"

definition add_primary_message ::
  "editor \<Rightarrow> settings \<Rightarrow> view \<Rightarrow> info \<Rightarrow> view \<Rightarrow> region \<Rightarrow> string \<Rightarrow> agg
     \<Rightarrow> (error \<times> run_state) + agg" where
  "add_primary_message ed cfg voi info v r msg a =
     with_parent (Some (v, r)) (add_message ed cfg voi info v r msg (extra_of info) (snd a))"

definition report_silent_message :: "info \<Rightarrow> string \<Rightarrow> string \<Rightarrow> run_state \<Rightarrow> run_state" where
  "report_silent_message info path msg st =
     st\<lparr>log := log st @ [SilentMessage path (level info) msg]\<rparr>"

subsection \<open>The annotation aggregator\<close>

definition no_spans_message ::
  "editor \<Rightarrow> settings \<Rightarrow> view \<Rightarrow> string \<Rightarrow> info \<Rightarrow> agg \<Rightarrow> (error \<times> run_state) + agg" where
  \<comment> \<open>the branch \<open>len(info['spans']) == 0\<close>\<close>
  "no_spans_message ed cfg voi target_src_path info a =
     (case fst a of
        Some (pv, pr) \<Rightarrow> add_primary_message ed cfg voi info pv pr (message info) a
      | None \<Rightarrow>
          if \<not> (startswith (message info) ''aborting due to'' \<or>
                 startswith (message info) ''cannot continue'')
          then (case find_open_file ed (realpath ed target_src_path) of
                  Some v \<Rightarrow>
                    add_primary_message ed cfg voi info v
                      (Region (view_size ed v) (view_size ed v)) (message info) a
                | None \<Rightarrow>
                    Inr (fst a,
                         report_silent_message info target_src_path (message info) (snd a)))
          else Inr a)"

definition span_region :: "editor \<Rightarrow> view \<Rightarrow> span \<Rightarrow> region" where
  "span_region ed v sp =
     Region (text_point ed v (line_start sp - 1) (column_start sp - 1))
            (text_point ed v (line_end sp - 1) (column_end sp - 1))"

definition anchor_span ::
  "editor \<Rightarrow> settings \<Rightarrow> view \<Rightarrow> info \<Rightarrow> bool \<Rightarrow> span \<Rightarrow> agg \<Rightarrow> (error \<times> run_state) + agg" where
  \<comment> \<open>the body of the loop over the spans, after the macro expansions have been followed:
      \<open>prim\<close> is \<open>is_primary\<close> as read before, \<open>sp\<close> the span that was found\<close>
  "anchor_span ed cfg voi info prim sp a =
     (case find_open_file ed (realpath ed (file_name sp)) of
        Some v \<Rightarrow>
          (let r = span_region ed v sp;
               lbl = text_of (label sp)
           in if lbl = [] \<and> \<not> prim
              then Inl (ValueError ''Unexpected span with no label'',
                        (snd a)\<lparr>log := log (snd a) @ [Pprint info]\<rparr>)
              else
                (case (if lbl \<noteq> []
                       then with_parent (fst a)
                              (add_message ed cfg voi info v r lbl NoExtra (snd a))
                       else Inr a) of
                   Inl e \<Rightarrow> Inl e
                 | Inr a1 \<Rightarrow>
                     (case (if prim
                            then add_primary_message ed cfg voi info v r (message info) a1
                            else Inr a1) of
                        Inl e \<Rightarrow> Inl e
                      | Inr a2 \<Rightarrow>
                          if text_of (suggested_replacement sp) \<noteq> []
                          then (case rendered info of
                                  None \<Rightarrow>
                                    Inl (AttributeError, note_region voi info v r (snd a2))
                                | Some txt \<Rightarrow>
                                    with_parent (fst a2)
                                      (add_message ed cfg voi info v r txt NoExtra (snd a2)))
                          else Inr a2)))
      | None \<Rightarrow>
          (let st1 = (if prim
                      then report_silent_message info (file_name sp) (message info) (snd a)
                      else snd a);
               st2 = (if text_of (label sp) \<noteq> []
                      then report_silent_message info (file_name sp) (text_of (label sp)) st1
                      else st1)
           in Inr (fst a, st2)))"

definition process_span ::
  "editor \<Rightarrow> settings \<Rightarrow> view \<Rightarrow> info \<Rightarrow> span \<Rightarrow> agg \<Rightarrow> (error \<times> run_state) + agg" where
  \<comment> \<open>one round of \<open>for span in info['spans']\<close>\<close>
  "process_span ed cfg voi info sp a =
     (case resolve_span sp of
        None \<Rightarrow> Inr a
      | Some sp' \<Rightarrow> anchor_span ed cfg voi info (is_primary sp) sp' a)"

fun process_spans ::
  "editor \<Rightarrow> settings \<Rightarrow> view \<Rightarrow> info \<Rightarrow> span list \<Rightarrow> agg \<Rightarrow> (error \<times> run_state) + agg" where
  "process_spans ed cfg voi info [] a = Inr a"
| "process_spans ed cfg voi info (sp # sps) a =
     (case process_span ed cfg voi info sp a of
        Inl e \<Rightarrow> Inl e
      | Inr a' \<Rightarrow> process_spans ed cfg voi info sps a')"

function add_error_phantoms ::
  "editor \<Rightarrow> settings \<Rightarrow> view \<Rightarrow> string \<Rightarrow> info \<Rightarrow> agg \<Rightarrow> (error \<times> run_state) + agg"
and add_children ::
  "editor \<Rightarrow> settings \<Rightarrow> view \<Rightarrow> string \<Rightarrow> info list \<Rightarrow> agg \<Rightarrow> (error \<times> run_state) + agg"
where
  "add_error_phantoms ed cfg voi target_src_path info a =
     (if level info \<noteq> ''error'' \<and> rust_syntax_hide_warnings cfg \<and> fst a = None
      then Inr a
      else
        (case (if spans info = [] then no_spans_message ed cfg voi target_src_path info a
               else Inr a) of
           Inl e \<Rightarrow> Inl e
         | Inr a0 \<Rightarrow>
             (case process_spans ed cfg voi info (spans info) a0 of
                Inl e \<Rightarrow> Inl e
              | Inr a' \<Rightarrow> add_children ed cfg voi target_src_path (children info) a')))"
| "add_children ed cfg voi target_src_path [] a = Inr a"
| "add_children ed cfg voi target_src_path (child # rest) a =
     (case add_error_phantoms ed cfg voi target_src_path child a of
        Inl e \<Rightarrow> Inl e
      | Inr a' \<Rightarrow> add_children ed cfg voi target_src_path rest a')"
  by pat_completeness auto

termination
proof (relation "measure (\<lambda>x. case x of
          Inl (ed, cfg, voi, tsp, info, a) \<Rightarrow> 2 * size info
        | Inr (ed, cfg, voi, tsp, infos, a) \<Rightarrow> 2 * size_list size infos + 1)",
       goal_cases)
  case 1
  show ?case by simp
next
  case 2
  have lt: "size_list size (children i) < size i" for i :: info
    by (cases i) simp
  have "Suc (2 * size_list size (children i)) < 2 * size i" for i :: info
    using lt [of i] by arith
  then show ?case by simp
next
  case 3
  then show ?case by simp
next
  case 4
  then show ?case by simp
qed

declare add_error_phantoms.simps [simp del]

subsection \<open>Paths\<close>

text \<open>
  \<open>os.path.dirname\<close> and \<open>os.path.join\<close> of the POSIX flavour of Python's library.
  \<open>dirname\<close> cuts the path after its last slash and then strips the slashes at the
  end of what is left, unless nothing but slashes is left.
\<close>

definition dirname :: "string \<Rightarrow> string" where
  "dirname p =
     (let head = rev (dropWhile (\<lambda>c. c \<noteq> CHR ''/'') (rev p))
      in if head \<noteq> [] \<and> head \<noteq> replicate (length head) CHR ''/''
         then rev (dropWhile (\<lambda>c. c = CHR ''/'') (rev head))
         else head)"

definition path_join :: "string \<Rightarrow> string \<Rightarrow> string" where
  "path_join a b =
     (if startswith b ''/'' then b
      else if a = [] \<or> last a = CHR ''/'' then a @ b
      else a @ ''/'' @ b)"

subsection \<open>The target resolver\<close>

datatype target = Target (kind: "string list") (name: string) (src_path: string)

definition target_to_args :: "target \<Rightarrow> error + (string \<times> string) option" where
  \<comment> \<open>\<open>_target_to_args\<close>: \<open>None\<close> for a build script, an error for an unknown kind
      (and for an empty list of kinds, where \<open>target['kind'][0]\<close> fails)\<close>
  "target_to_args t =
     (case kind t of
        [] \<Rightarrow> Inl IndexError
      | k # _ \<Rightarrow>
          if k \<in> set [''lib'', ''rlib'', ''dylib'', ''staticlib'', ''proc-macro'']
          then Inr (Some (src_path t, ''--lib''))
          else if k \<in> set [''bin'', ''test'', ''example'', ''bench'']
          then Inr (Some (src_path t, ''--'' @ k @ '' '' @ name t))
          else if k = ''custom-build'' then Inr None
          else Inl (ValueError k))"

record lm_state =
  result :: "(string \<times> string) list"
  found :: bool
  found_lib :: bool
  found_bin :: bool

fun scan_targets :: "target list \<Rightarrow> string \<Rightarrow> lm_state \<Rightarrow> error + lm_state" where
  \<comment> \<open>\<open>for target in targets\<close>, at one directory\<close>
  "scan_targets [] path_match s = Inr s"
| "scan_targets (t # ts) path_match s =
     (if dirname (src_path t) = path_match then
        (case target_to_args t of
           Inl e \<Rightarrow> Inl e
         | Inr None \<Rightarrow> scan_targets ts path_match s
         | Inr (Some target_args) \<Rightarrow>
             scan_targets ts path_match
               \<lparr>result = result s @ [target_args],
                found = True,
                found_lib = (found_lib s \<or> startswith (snd target_args) ''--lib''),
                found_bin = (found_bin s \<or> startswith (snd target_args) ''--bin'')\<rparr>)
      else scan_targets ts path_match s)"

function longest_loop :: "target list \<Rightarrow> string \<Rightarrow> lm_state \<Rightarrow> error + lm_state" where
  \<comment> \<open>\<open>while not found\<close>\<close>
  "longest_loop targets path_match s =
     (if found s then Inr s
      else
        (case scan_targets targets path_match s of
           Inl e \<Rightarrow> Inl e
         | Inr s' \<Rightarrow>
             (let p = dirname path_match
              in if p = path_match then Inr s' else longest_loop targets p s')))"
  by pat_completeness auto
termination
proof (relation "measure (\<lambda>(targets, path_match, s). length path_match)", goal_cases)
  case 1
  show ?case by simp
next
  case (2 targets path_match s s' p)
  have cut: "length (rev (dropWhile P (rev xs))) \<le> length xs" for P and xs :: string
    using length_dropWhile_le [of P "rev xs"] by simp
  have eq: "rev (dropWhile P (rev xs)) = xs" if "length (rev (dropWhile P (rev xs))) = length xs"
    for P and xs :: string
  proof -
    have "length (dropWhile P (rev xs)) = length (rev xs)" using that by simp
    then have "takeWhile P (rev xs) = []"
      by (metis append_self_conv2 length_0_conv length_append add_cancel_left_left
          takeWhile_dropWhile_id)
    then have "dropWhile P (rev xs) = rev xs"
      by (metis append_Nil takeWhile_dropWhile_id)
    then show ?thesis by simp
  qed
  define head where "head = rev (dropWhile (\<lambda>c. c \<noteq> CHR ''/'') (rev path_match))"
  have h1: "length head \<le> length path_match"
    unfolding head_def by (rule cut)
  have h2: "length (rev (dropWhile (\<lambda>c. c = CHR ''/'') (rev head))) \<le> length head"
    by (rule cut)
  have le: "length (dirname path_match) \<le> length path_match"
    using h1 h2 by (simp add: dirname_def Let_def head_def [symmetric])
  have "length (dirname path_match) \<noteq> length path_match"
  proof
    assume len: "length (dirname path_match) = length path_match"
    show False
    proof (cases "head \<noteq> [] \<and> head \<noteq> replicate (length head) CHR ''/''")
      case True
      then have d: "dirname path_match = rev (dropWhile (\<lambda>c. c = CHR ''/'') (rev head))"
        by (simp add: dirname_def Let_def head_def [symmetric])
      with len h1 h2 have l1: "length (rev (dropWhile (\<lambda>c. c = CHR ''/'') (rev head))) = length head"
        and l2: "length head = length path_match" by simp_all
      from eq [OF l1] d have "dirname path_match = head" by simp
      moreover from l2 have "head = path_match" unfolding head_def by (rule eq)
      ultimately show False using 2 by simp
    next
      case False
      then have d: "dirname path_match = head"
        by (auto simp: dirname_def Let_def head_def [symmetric])
      with len have "head = path_match" unfolding head_def by (intro eq) simp
      with d show False using 2 by simp
    qed
  qed
  with le 2 show ?case by simp
qed

declare longest_loop.simps [simp del]

definition targets_longest_matches ::
  "target list \<Rightarrow> string \<Rightarrow> error + (string \<times> string) list" where
  "targets_longest_matches targets fname =
     (case longest_loop targets (dirname fname)
             \<lparr>result = [], found = False, found_lib = False, found_bin = False\<rparr> of
        Inl e \<Rightarrow> Inl e
      | Inr s \<Rightarrow>
          Inr (if found_bin s \<and> found_lib s
               then filter (\<lambda>x. \<not> startswith (snd x) ''--bin'') (result s)
               else result s))"

text \<open>
  The manual configuration: the projects of the settings in the order in which
  \<open>.values()\<close> yields them, the targets of a project in the order of \<open>.items()\<close>.
\<close>

record project =
  proj_root :: string
  proj_targets :: "(string \<times> string) list"

fun find_target :: "(string \<times> string) list \<Rightarrow> string \<Rightarrow> string \<Rightarrow> (string \<times> string) option" where
  \<comment> \<open>\<open>for tfile, tcmd in targets.items()\<close>\<close>
  "find_target [] src_root fname = None"
| "find_target ((tfile, tcmd) # rest) src_root fname =
     (if fname = path_join src_root tfile then Some (tfile, tcmd)
      else find_target rest src_root fname)"

fun targets_manual_config :: "project list \<Rightarrow> string \<Rightarrow> (string \<times> string) list option" where
  "targets_manual_config [] fname = None"
| "targets_manual_config (p # ps) fname =
     (let src_root = path_join (proj_root p) ''src''
      in if \<not> startswith fname src_root then targets_manual_config ps fname
         else
           (case find_target (proj_targets p) src_root fname of
              Some r \<Rightarrow> Some [r]
            | None \<Rightarrow>
                (let target = text_of (map_of (proj_targets p) ''_default'')
                 in if target \<noteq> [] then Some [('''', target)]
                    else targets_manual_config ps fname)))"

subsection \<open>The diagnostic fetcher\<close>

text \<open>
  Cargo is outside the plugin: \<open>cargo\<close> maps a command line to what the process wrote
  (\<open>None\<close> when the bytes are not UTF-8, where \<open>decode\<close> fails) and its exit status.
  \<open>json.loads\<close> is a parameter too, \<open>loads\<close>: \<open>None\<close> where it raises.
\<close>

record proc =
  stdout :: "string option"
  returncode :: int

fun split_on :: "char \<Rightarrow> string \<Rightarrow> string list" where
  \<comment> \<open>\<open>s.split(c)\<close>\<close>
  "split_on c [] = [[]]"
| "split_on c (x # xs) =
     (if x = c then [] # split_on c xs
      else (case split_on c xs of
              [] \<Rightarrow> [[x]]
            | l # ls \<Rightarrow> (x # l) # ls))"

fun join_args :: "string list \<Rightarrow> string" where
  \<comment> \<open>\<open>' '.join(args)\<close>\<close>
  "join_args [] = []"
| "join_args [a] = a"
| "join_args (a # b # rest) = a @ '' '' @ join_args (b # rest)"

fun parse_lines :: "(string \<Rightarrow> 'a option) \<Rightarrow> string list \<Rightarrow> 'a list \<Rightarrow> error + 'a list" where
  \<comment> \<open>\<open>for line in output.split('\n')\<close>, with the list \<open>result\<close> built so far\<close>
  "parse_lines loads [] res = Inr res"
| "parse_lines loads (line # rest) res =
     (case line of
        [] \<Rightarrow> parse_lines loads rest res
      | c # _ \<Rightarrow>
          if c \<noteq> CHR ''{'' then parse_lines loads rest res
          else (case loads line of
                  None \<Rightarrow> Inl (ValueError ''json.loads'')
                | Some v \<Rightarrow> parse_lines loads rest (res @ [v])))"

definition run_cargo ::
  "(string \<Rightarrow> proc) \<Rightarrow> (string \<Rightarrow> 'a option) \<Rightarrow> string list \<Rightarrow> run_state
     \<Rightarrow> (error \<times> run_state) + ('a list \<times> run_state)" where
  "run_cargo cargo loads args st =
     (let cmd = join_args (''cargo'' # args);
          st1 = st\<lparr>log := log st @ [Running cmd]\<rparr>;
          cproc = cargo cmd
      in case stdout cproc of
           None \<Rightarrow> Inl (UnicodeDecodeError, st1)
         | Some out \<Rightarrow>
             (case parse_lines loads (split_on (CHR 0x0A) out) [] of
                Inl e \<Rightarrow> Inl (e, st1)
              | Inr res \<Rightarrow>
                  Inr (res,
                       if res = [] \<and> returncode cproc \<noteq> 0
                       then st1\<lparr>log := log st1 @ [FailedToRun cmd out]\<rparr>
                       else st1)))"

definition rustc_args :: "settings \<Rightarrow> string \<Rightarrow> string list" where
  \<comment> \<open>the arguments \<open>get_rustc_messages\<close> builds for one target\<close>
  "rustc_args cfg target_args =
     [''rustc'', target_args, ''--'', ''-Zno-trans'', ''-Zunstable-options'',
      ''--error-format=json''] @
     (if rust_syntax_checking_include_tests cfg \<and> \<not> str_contains ''--test'' target_args
      then [''--test''] else [])"

subsection \<open>The check run\<close>

fun add_infos ::
  "editor \<Rightarrow> settings \<Rightarrow> view \<Rightarrow> string \<Rightarrow> info list \<Rightarrow> run_state
     \<Rightarrow> (error \<times> run_state) + run_state" where
  \<comment> \<open>\<open>for info in infos\<close>: each message starts with an empty \<open>parent_info\<close>\<close>
  "add_infos ed cfg voi target_src [] st = Inr st"
| "add_infos ed cfg voi target_src (info # rest) st =
     (case add_error_phantoms ed cfg voi target_src info (None, st) of
        Inl e \<Rightarrow> Inl e
      | Inr a \<Rightarrow> add_infos ed cfg voi target_src rest (snd a))"

text \<open>
  The loop of \<open>on_post_save_async\<close> over the generator \<open>get_rustc_messages\<close>: the
  generator runs Cargo for a target only when the loop asks for the next pair, so a
  \<open>break\<close> leaves the remaining targets unfetched. \<open>targets\<close> is the list
  \<open>determine_targets\<close> returned.
\<close>

fun check_targets ::
  "(string \<Rightarrow> proc) \<Rightarrow> (string \<Rightarrow> info option) \<Rightarrow> editor \<Rightarrow> settings \<Rightarrow> view
     \<Rightarrow> (string \<times> string) list \<Rightarrow> run_state \<Rightarrow> (error \<times> run_state) + run_state" where
  "check_targets cargo loads ed cfg voi [] st = Inr st"
| "check_targets cargo loads ed cfg voi (t # rest) st =
     (case run_cargo cargo loads (rustc_args cfg (snd t)) st of
        Inl e \<Rightarrow> Inl e
      | Inr (infos, st1) \<Rightarrow>
          (case add_infos ed cfg voi (fst t) infos st1 of
             Inl e \<Rightarrow> Inl e
           | Inr st2 \<Rightarrow>
               if this_view_found st2 then Inr st2
               else check_targets cargo loads ed cfg voi rest st2))"

definition cargo_calls :: "run_state \<Rightarrow> string list" where
  \<comment> \<open>the command lines of the Cargo processes started so far, read off the log\<close>
  "cargo_calls st = concat (map (\<lambda>e. case e of Running cmd \<Rightarrow> [cmd] | _ \<Rightarrow> []) (log st))"

subsection \<open>Following an expansion chain by hand\<close>

text \<open>
  \<open>hops n sp\<close> is the span reached from \<open>sp\<close> after \<open>n\<close> steps along
  \<open>expansion\<close>, and \<open>hop_count sp\<close> counts the recursive calls of \<open>find_span_r\<close>.
\<close>

fun hops :: "nat \<Rightarrow> span \<Rightarrow> span option" where
  "hops 0 sp = Some sp"
| "hops (Suc n) sp = (case expansion sp of None \<Rightarrow> None | Some e \<Rightarrow> hops n e)"

fun hop_count :: "span \<Rightarrow> nat" where
  "hop_count (Span fn ls le cs ce pr lb sr None) = 0"
| "hop_count (Span fn ls le cs ce pr lb sr (Some e)) =
     (if str_contains ''macros>'' fn then Suc (hop_count e) else 0)"

subsection \<open>Reading the state\<close>

definition scope_of :: "info \<Rightarrow> string" where
  \<comment> \<open>the scope under which \<open>add_message\<close> files the regions of a message\<close>
  "scope_of info = (if level info = ''error'' then ''invalid'' else ''info'')"

definition regions_of :: "run_state \<Rightarrow> view \<Rightarrow> string \<Rightarrow> region list" where
  \<comment> \<open>the regions \<open>draw_region_highlights\<close> hands to a view for a scope\<close>
  "regions_of st v scope =
     (case regions_by_view st v of
        None \<Rightarrow> []
      | Some d \<Rightarrow> (case d scope of None \<Rightarrow> [] | Some rs \<Rightarrow> rs))"

subsection \<open>Reading the target resolver\<close>

definition level_args :: "target list \<Rightarrow> string \<Rightarrow> (string \<times> string) list" where
  \<comment> \<open>the invocations of the targets whose source file lies exactly in the directory \<open>d\<close>,
      in the order of the targets\<close>
  "level_args targets d =
     concat (map (\<lambda>t. if dirname (src_path t) = d
                      then (case target_to_args t of Inr (Some a) \<Rightarrow> [a] | _ \<Rightarrow> [])
                      else []) targets)"

definition is_bin :: "string \<times> string \<Rightarrow> bool" where
  "is_bin a = startswith (snd a) ''--bin''"

definition is_lib :: "string \<times> string \<Rightarrow> bool" where
  "is_lib a = startswith (snd a) ''--lib''"

definition t_main :: target where
  "t_main = Target [''bin''] ''app'' ''/p/src/main.rs''"

definition t_helper :: target where
  "t_helper = Target [''lib''] ''mylib'' ''/p/src/helper.rs''"

definition t_demo :: target where
  "t_demo = Target [''example''] ''demo'' ''/p/src/demo.rs''"

definition t_build :: target where
  "t_build = Target [''custom-build''] ''build-script-build'' ''/p/src/sub/build.rs''"

subsection \<open>Sample data\<close>

text \<open>
  An editor with one open file, \<open>/p/src/lib.rs\<close>, shown by the view \<open>lib_view\<close>; a text point is
  written \<open>1000 * row + col\<close>, so that rows and columns can be read off it. The
  template formats for every colour without a brace, as it does in Python; in this
  editor it fails for every other colour.
\<close>

definition brace_free :: "string \<Rightarrow> bool" where
  "brace_free c = (CHR ''{'' \<notin> set c \<and> CHR ''}'' \<notin> set c)"

definition lib_view :: view where
  "lib_view = 1"

definition ed0 :: editor where
  "ed0 = \<lparr>find_open_file = (\<lambda>p. if p = ''/p/src/lib.rs'' then Some lib_view else None),
          realpath = (\<lambda>p. p),
          text_point = (\<lambda>v row col. 1000 * row + col),
          rowcol = (\<lambda>v pt. (pt div 1000, pt mod 1000)),
          view_size = (\<lambda>v. 5000),
          format_error = (\<lambda>colour cls lvl msg ex.
                            if brace_free colour then None
                            else Some ''format: brace in the colour'')\<rparr>"

definition cfg0 :: settings where
  "cfg0 = \<lparr>rust_syntax_hide_warnings = True,
           rust_syntax_error_color = ''var(--redish)'',
           rust_syntax_warning_color = ''var(--yellowish)'',
           rust_syntax_checking_include_tests = True\<rparr>"

definition st0 :: run_state where
  "st0 = \<lparr>this_view_found = False, regions_by_view = Map.empty, phantoms = [], log = []\<rparr>"

definition sp_lib :: span where
  \<comment> \<open>a primary span with a label, in the open file\<close>
  "sp_lib = Span ''/p/src/lib.rs'' 5 5 1 10 True (Some ''expected u32'') None None"

definition sp_dead :: span where
  \<comment> \<open>a span inside a macro with no expansion\<close>
  "sp_dead = Span ''<std macros>'' 1 1 1 5 True (Some ''here'') None None"

definition sp_macro :: span where
  \<comment> \<open>a span inside a macro of a macro, called from the open file\<close>
  "sp_macro =
     Span ''<std macros>'' 2 2 1 8 True None None
       (Some (Span ''<std macros>'' 1 1 1 5 False None None (Some sp_lib)))"


definition sp_closed :: span where
  \<comment> \<open>a primary span with a label, in a file that is not open\<close>
  "sp_closed = Span ''/p/src/other.rs'' 2 2 1 3 True (Some ''unused'') None None"

definition err_info :: "span list \<Rightarrow> info list \<Rightarrow> info" where
  "err_info sps chs = Info ''error'' ''mismatched types'' None sps chs None"

definition note_info :: "span list \<Rightarrow> info" where
  "note_info sps = Info ''note'' ''see here'' None sps [] (Some ''rendered text'')"

section \<open>Properties\<close>

lemma err_info_sel [simp]:
  "level (err_info sps chs) = ''error''"
  "message (err_info sps chs) = ''mismatched types''"
  "code (err_info sps chs) = None"
  "spans (err_info sps chs) = sps"
  "children (err_info sps chs) = chs"
  "rendered (err_info sps chs) = None"
  by (simp_all add: err_info_def)

lemma note_info_sel [simp]:
  "level (note_info sps) = ''note''"
  "message (note_info sps) = ''see here''"
  "code (note_info sps) = None"
  "spans (note_info sps) = sps"
  "children (note_info sps) = []"
  "rendered (note_info sps) = Some ''rendered text''"
  by (simp_all add: note_info_def)

lemma format_ed0 [simp]:
  "format_error ed0 (base_color cfg0 info) cls lvl msg ex = None"
  by (simp add: ed0_def cfg0_def base_color_def brace_free_def)

lemma ed0_open [simp]:
  "find_open_file ed0 (realpath ed0 ''/p/src/lib.rs'') = Some lib_view"
  "find_open_file ed0 (realpath ed0 ''/p/src/other.rs'') = None"
  by (simp_all add: ed0_def)

subsection \<open>Span resolution\<close>

lemma find_span_r_real: "\<not> in_macro sp \<Longrightarrow> find_span_r sp = Some sp"
  by (cases sp rule: find_span_r.cases) (simp_all add: in_macro_def)

text \<open>
  C6. A span whose file name does not mark a macro expansion is anchored as it is: the
  head of the loop yields the very same span, \<open>find_span_r\<close> would return it without
  following any expansion (its count of hops is zero), and the round of the loop is the
  anchoring of that span.
\<close>

theorem real_span_resolves_to_itself:
  assumes "\<not> in_macro sp"
  shows "resolve_span sp = Some sp \<and> find_span_r sp = Some sp \<and> hop_count sp = 0 \<and>
         process_span ed cfg voi info sp a = anchor_span ed cfg voi info (is_primary sp) sp a"
proof -
  from assms have r: "resolve_span sp = Some sp"
    by (simp add: resolve_span_def in_macro_def)
  from assms have h: "hop_count sp = 0"
    by (cases sp rule: hop_count.cases) (simp_all add: in_macro_def)
  from r h assms show ?thesis
    by (simp add: process_span_def find_span_r_real)
qed

theorem real_span_resolves_to_itself_witness:
  "\<not> in_macro sp_lib \<and> resolve_span sp_lib = Some sp_lib \<and> find_span_r sp_lib = Some sp_lib \<and>
   hop_count sp_lib = 0"
proof -
  have m: "\<not> in_macro sp_lib"
    by (simp add: in_macro_def sp_lib_def startswith_def)
  from real_span_resolves_to_itself [OF m, of ed0 cfg0 lib_view "err_info [] []" "(None, st0)"] m
  show ?thesis by blast
qed

lemma find_span_r_chain:
  "(case find_span_r sp of
      Some t \<Rightarrow> hops (hop_count sp) sp = Some t \<and> \<not> in_macro t
    | None \<Rightarrow> (\<exists>u. hops (hop_count sp) sp = Some u \<and> in_macro u \<and> expansion u = None))"
  by (induction sp rule: find_span_r.induct) (auto simp: in_macro_def split: option.splits)

lemma hops_before:
  "k < hop_count sp \<Longrightarrow> \<exists>u. hops k sp = Some u \<and> in_macro u \<and> expansion u \<noteq> None"
proof (induction sp arbitrary: k rule: hop_count.induct)
  case 1
  then show ?case by simp
next
  case (2 fn ls le cs ce pr lb sr e)
  then show ?case by (cases k) (auto simp: in_macro_def split: if_splits)
qed

lemma unresolved_span_skipped:
  "in_macro sp \<Longrightarrow> find_span_r sp = None \<Longrightarrow>
   process_spans ed cfg voi info (sp # sps) a = process_spans ed cfg voi info sps a"
  by (simp add: process_span_def resolve_span_def in_macro_def)

text \<open>
  C4, as the code has it. \<open>find_span_r\<close> is a total function: a span is a finite
  value, so its chain of expansions ends. With \<open>N = hop_count sp\<close> the number of
  recursive calls, the spans reached after fewer than \<open>N\<close> hops all lie in macros and
  have an expansion, and the span reached after exactly \<open>N\<close> hops decides the result:
  it is returned when its file name is a real one, and the result is \<open>None\<close> when it
  lies in a macro and has no expansion. In the second case the loop over the spans goes
  on with the next span, and the state is what it was: nothing is added and nothing is
  logged for the span that was dropped.
\<close>

theorem macro_chain_resolution:
  "(case find_span_r sp of
      Some t \<Rightarrow> hops (hop_count sp) sp = Some t \<and> \<not> in_macro t
    | None \<Rightarrow> (\<exists>u. hops (hop_count sp) sp = Some u \<and> in_macro u \<and> expansion u = None)) \<and>
   (\<forall>k < hop_count sp. \<exists>u. hops k sp = Some u \<and> in_macro u \<and> expansion u \<noteq> None) \<and>
   (in_macro sp \<and> find_span_r sp = None \<longrightarrow>
      process_spans ed cfg voi info (sp # sps) a = process_spans ed cfg voi info sps a)"
  using find_span_r_chain [of sp] hops_before [of _ sp]
    unresolved_span_skipped [of sp ed cfg voi info sps a]
  by blast

theorem macro_chain_resolution_witness:
  "in_macro sp_macro \<and> hop_count sp_macro = 2 \<and> find_span_r sp_macro = Some sp_lib \<and>
   hops 2 sp_macro = Some sp_lib \<and> \<not> in_macro sp_lib \<and>
   (\<exists>u. hops 1 sp_macro = Some u \<and> in_macro u \<and> expansion u \<noteq> None) \<and>
   in_macro sp_dead \<and> find_span_r sp_dead = None \<and>
   process_spans ed0 cfg0 lib_view (err_info [] []) [sp_dead, sp_lib] (None, st0) =
     process_spans ed0 cfg0 lib_view (err_info [] []) [sp_lib] (None, st0)"
proof -
  have m: "in_macro sp_macro" "in_macro sp_dead"
    by (simp_all add: in_macro_def sp_macro_def sp_dead_def startswith_def)
  have c: "hop_count sp_macro = 2"
    by (simp add: sp_macro_def sp_lib_def startswith_def)
  have f: "find_span_r sp_macro = Some sp_lib" "find_span_r sp_dead = None"
    by (simp_all add: sp_macro_def sp_lib_def sp_dead_def startswith_def)
  have one: "(1::nat) < 2" by simp
  note chain = macro_chain_resolution [of sp_macro ed0 cfg0 lib_view "err_info [] []" "[]" "(None, st0)"]
  from chain c f have "hops 2 sp_macro = Some sp_lib \<and> \<not> in_macro sp_lib"
    by simp
  moreover
  from chain c have
    "\<forall>k<2. \<exists>u. hops k sp_macro = Some u \<and> in_macro u \<and> expansion u \<noteq> None"
    by simp
  with one have "\<exists>u. hops 1 sp_macro = Some u \<and> in_macro u \<and> expansion u \<noteq> None"
    by blast
  moreover
  from macro_chain_resolution [of sp_dead ed0 cfg0 lib_view "err_info [] []" "[sp_lib]" "(None, st0)"]
  have "process_spans ed0 cfg0 lib_view (err_info [] []) [sp_dead, sp_lib] (None, st0) =
        process_spans ed0 cfg0 lib_view (err_info [] []) [sp_lib] (None, st0)"
    using m f by simp
  ultimately show ?thesis using m c f by blast
qed

text \<open>
  C4 as it is stated asks for a logged note when a span is dropped. A message whose only
  span lies in a macro without expansion leaves the whole state as it was, the log
  included: here the log stays empty and no phantom is added.
\<close>

theorem unresolved_span_is_not_logged:
  "find_span_r sp_dead = None \<and>
   add_error_phantoms ed0 cfg0 lib_view ''/p/src/lib.rs'' (err_info [sp_dead] []) (None, st0) =
     Inr (None, st0) \<and>
   log st0 = []"
  by (simp add: add_error_phantoms.simps sp_dead_def process_span_def
        resolve_span_def startswith_def st0_def)

subsection \<open>Regions\<close>

lemma regions_of_note_region:
  "regions_of (note_region voi info v r st) v (scope_of info) =
   regions_of st v (scope_of info) @ [r]"
  by (simp add: regions_of_def note_region_def add_region_def scope_of_def Let_def
        split: option.splits)

lemma regions_of_phantoms [simp]: "regions_of (st\<lparr>phantoms := p\<rparr>) = regions_of st"
  by (simp add: regions_of_def fun_eq_iff)

lemma add_message_Inr:
  assumes "add_message ed cfg voi info v r msg ex st = Inr st'"
  shows "regions_of st' v (scope_of info) = regions_of st v (scope_of info) @ [r]"
    and "map ph_region (phantoms st') = map ph_region (phantoms st) @ [phantom_region ed v r]"
proof -
  from assms have st': "st' = (note_region voi info v r st)\<lparr>phantoms :=
      phantoms (note_region voi info v r st) @
        [\<lparr>ph_view = v, ph_region = phantom_region ed v r, ph_color = base_color cfg info,
          ph_cls = cls_of info, ph_level = level info, ph_msg = escape_message msg,
          ph_extra = ex\<rparr>]\<rparr>"
    by (auto simp: add_message_def Let_def split: option.splits)
  show "regions_of st' v (scope_of info) = regions_of st v (scope_of info) @ [r]"
    by (simp add: st' regions_of_note_region)
  show "map ph_region (phantoms st') = map ph_region (phantoms st) @ [phantom_region ed v r]"
    by (simp add: st' note_region_def Let_def)
qed

lemma with_parent_Inr: "with_parent p res = Inr a \<Longrightarrow> \<exists>st. res = Inr st \<and> a = (p, st)"
  by (cases res) (auto simp: with_parent_def)

text \<open>
  C5. Let a span resolve to \<open>sp'\<close>, in a file shown by the view \<open>v\<close>, and let the round
  of the loop return. Every region the round adds to the highlights of \<open>v\<close> is the
  region from the text point of row \<open>line_start - 1\<close>, column \<open>column_start - 1\<close> to the
  text point of row \<open>line_end - 1\<close>, column \<open>column_end - 1\<close>; it is added once for the
  label, once for the primary message and once for the suggestion, so at least once.
  The phantoms of the round are placed at that region too (cut down to its last line
  when it covers several).
\<close>

theorem span_region_is_zero_based:
  assumes "resolve_span sp = Some sp'"
    and "find_open_file ed (realpath ed (file_name sp')) = Some v"
    and "process_span ed cfg voi info sp a = Inr a'"
    and "r = Region (text_point ed v (line_start sp' - 1) (column_start sp' - 1))
                    (text_point ed v (line_end sp' - 1) (column_end sp' - 1))"
    and "n = (if text_of (label sp') \<noteq> [] then 1 else 0) + (if is_primary sp then 1 else 0) +
             (if text_of (suggested_replacement sp') \<noteq> [] then 1 else (0::nat))"
  shows "regions_of (snd a') v (scope_of info) =
           regions_of (snd a) v (scope_of info) @ replicate n r \<and>
         map ph_region (phantoms (snd a')) =
           map ph_region (phantoms (snd a)) @ replicate n (phantom_region ed v r) \<and>
         0 < n"
proof -
  let ?R = "\<lambda>st. regions_of st v (scope_of info)"
  let ?P = "\<lambda>st. map ph_region (phantoms st)"
  let ?lbl = "text_of (label sp')"
  let ?sug = "text_of (suggested_replacement sp')"
  have r: "r = span_region ed v sp'"
    by (simp add: assms(4) span_region_def)
  let ?r = "span_region ed v sp'"
  from assms(1-3) have ok: "\<not> (?lbl = [] \<and> \<not> is_primary sp)"
    by (cases "?lbl = [] \<and> \<not> is_primary sp")
       (simp_all add: process_span_def anchor_span_def Let_def)
  let ?X1 = "if ?lbl \<noteq> []
             then with_parent (fst a) (add_message ed cfg voi info v ?r ?lbl NoExtra (snd a))
             else Inr a"
  let ?X2 = "\<lambda>a1. if is_primary sp
             then add_primary_message ed cfg voi info v ?r (message info) a1
             else Inr a1"
  let ?X3 = "\<lambda>a2. if ?sug \<noteq> []
             then (case rendered info of
                     None \<Rightarrow> Inl (AttributeError, note_region voi info v ?r (snd a2))
                   | Some txt \<Rightarrow> with_parent (fst a2)
                       (add_message ed cfg voi info v ?r txt NoExtra (snd a2)))
             else Inr a2"
  from assms(1-3) ok have eq:
    "(case ?X1 of Inl e \<Rightarrow> Inl e
      | Inr a1 \<Rightarrow> (case ?X2 a1 of Inl e \<Rightarrow> Inl e | Inr a2 \<Rightarrow> ?X3 a2)) = Inr a'"
    by (simp add: process_span_def anchor_span_def Let_def)
  then obtain a1 where s1: "?X1 = Inr a1"
    and eq1: "(case ?X2 a1 of Inl e \<Rightarrow> Inl e | Inr a2 \<Rightarrow> ?X3 a2) = Inr a'"
    by (cases ?X1) simp_all
  then obtain a2 where s2: "?X2 a1 = Inr a2" and s3: "?X3 a2 = Inr a'"
    by (cases "?X2 a1") simp_all
  have e1: "?R (snd a1) = ?R (snd a) @ replicate (if ?lbl \<noteq> [] then 1 else 0) ?r \<and>
            ?P (snd a1) = ?P (snd a) @ replicate (if ?lbl \<noteq> [] then 1 else 0) (phantom_region ed v ?r)"
  proof (cases "?lbl \<noteq> []")
    case True
    with s1 obtain st where "add_message ed cfg voi info v ?r ?lbl NoExtra (snd a) = Inr st"
      and "a1 = (fst a, st)" by (auto dest: with_parent_Inr)
    with True add_message_Inr [of ed cfg voi info v ?r ?lbl NoExtra "snd a" st]
    show ?thesis by simp
  next
    case False
    with s1 show ?thesis by simp
  qed
  have e2: "?R (snd a2) = ?R (snd a1) @ replicate (if is_primary sp then 1 else 0) ?r \<and>
            ?P (snd a2) = ?P (snd a1) @ replicate (if is_primary sp then 1 else 0) (phantom_region ed v ?r)"
  proof (cases "is_primary sp")
    case True
    with s2 obtain st where
      "add_message ed cfg voi info v ?r (message info) (extra_of info) (snd a1) = Inr st"
      and "a2 = (Some (v, ?r), st)"
      by (auto simp: add_primary_message_def dest: with_parent_Inr)
    with True add_message_Inr [of ed cfg voi info v ?r "message info" "extra_of info" "snd a1" st]
    show ?thesis by simp
  next
    case False
    with s2 show ?thesis by simp
  qed
  have e3: "?R (snd a') = ?R (snd a2) @ replicate (if ?sug \<noteq> [] then 1 else 0) ?r \<and>
            ?P (snd a') = ?P (snd a2) @ replicate (if ?sug \<noteq> [] then 1 else 0) (phantom_region ed v ?r)"
  proof (cases "?sug \<noteq> []")
    case True
    with s3 obtain rt st where "add_message ed cfg voi info v ?r rt NoExtra (snd a2) = Inr st"
      and "a' = (fst a2, st)"
      by (auto split: option.splits dest: with_parent_Inr)
    with True add_message_Inr [of ed cfg voi info v ?r rt NoExtra "snd a2" st]
    show ?thesis by simp
  next
    case False
    with s3 show ?thesis by simp
  qed
  from ok have pos: "0 < n"
    by (auto simp: assms(5))
  from e1 e2 e3 have "?R (snd a') = ?R (snd a) @ replicate n ?r"
    and "?P (snd a') = ?P (snd a) @ replicate n (phantom_region ed v ?r)"
    by (simp_all add: assms(5) replicate_add)
  with pos show ?thesis by (simp add: r)
qed

lemma sp_lib_sel [simp]:
  "file_name sp_lib = ''/p/src/lib.rs''"
  "line_start sp_lib = 5" "line_end sp_lib = 5"
  "column_start sp_lib = 1" "column_end sp_lib = 10"
  "is_primary sp_lib"
  "label sp_lib = Some ''expected u32''"
  "suggested_replacement sp_lib = None"
  "resolve_span sp_lib = Some sp_lib"
  by (simp_all add: sp_lib_def resolve_span_def startswith_def)

lemma text_of_simps [simp]: "text_of None = []" "text_of (Some s) = s"
  by (simp_all add: text_of_def)

theorem span_region_is_zero_based_witness:
  "resolve_span sp_lib = Some sp_lib \<and>
   find_open_file ed0 (realpath ed0 (file_name sp_lib)) = Some lib_view \<and>
   line_start sp_lib = 5 \<and> column_start sp_lib = 1 \<and> line_end sp_lib = 5 \<and>
   column_end sp_lib = 10 \<and>
   regions_of (snd (projr (process_span ed0 cfg0 lib_view (err_info [sp_lib] []) sp_lib (None, st0))))
     lib_view ''invalid'' =
     [Region (text_point ed0 lib_view 4 0) (text_point ed0 lib_view 4 9),
      Region (text_point ed0 lib_view 4 0) (text_point ed0 lib_view 4 9)]"
proof -
  let ?i = "err_info [sp_lib] []"
  have r: "resolve_span sp_lib = Some sp_lib"
    by simp
  have f: "find_open_file ed0 (realpath ed0 (file_name sp_lib)) = Some lib_view"
    by simp
  obtain a' where p: "process_span ed0 cfg0 lib_view ?i sp_lib (None, st0) = Inr a'"
    by (simp add: process_span_def anchor_span_def Let_def add_primary_message_def
          add_message_def with_parent_def)
  have s: "scope_of ?i = ''invalid''"
    by (simp add: scope_of_def)
  have e: "regions_of st0 v ''invalid'' = []" for v
    by (simp add: regions_of_def st0_def)
  from span_region_is_zero_based [OF r f p refl refl]
  have "regions_of (snd a') lib_view ''invalid'' =
        [Region (text_point ed0 lib_view 4 0) (text_point ed0 lib_view 4 9),
         Region (text_point ed0 lib_view 4 0) (text_point ed0 lib_view 4 9)]"
    unfolding s by (simp add: e)
  with p r f show ?thesis
    by simp
qed

subsection \<open>Spans without a label\<close>




subsection \<open>Hiding warnings\<close>

text \<open>
  C2. The claim holds of the comment in the source (notes tied to errors are included
  even if warnings are hidden), not of the code. The error below has its span in a file
  that is not open, so it places no primary message and \<open>parent_info\<close> stays empty;
  its note, whose span lies in the open file, then meets the filter with an empty
  \<open>parent_info\<close> and is dropped: with warnings hidden the run adds no phantom and
  logs the two lines of the error only, while with warnings shown the same note adds
  its label and its message to the view.
\<close>

theorem note_of_unanchored_error_is_filtered:
  "rust_syntax_hide_warnings cfg0 \<and>
   add_error_phantoms ed0 cfg0 lib_view ''/p/src/lib.rs''
     (err_info [sp_closed] [note_info [sp_lib]]) (None, st0) =
     Inr (None, st0\<lparr>log := [SilentMessage ''/p/src/other.rs'' ''error'' ''mismatched types'',
                              SilentMessage ''/p/src/other.rs'' ''error'' ''unused'']\<rparr>) \<and>
   phantoms st0 = [] \<and>
   \<not> isl (add_error_phantoms ed0 (cfg0\<lparr>rust_syntax_hide_warnings := False\<rparr>) lib_view
       ''/p/src/lib.rs'' (err_info [sp_closed] [note_info [sp_lib]]) (None, st0)) \<and>
   map (\<lambda>ph. (ph_level ph, ph_msg ph))
     (phantoms (snd (projr (add_error_phantoms ed0
       (cfg0\<lparr>rust_syntax_hide_warnings := False\<rparr>) lib_view ''/p/src/lib.rs''
       (err_info [sp_closed] [note_info [sp_lib]]) (None, st0))))) =
     [(''note'', ''expected&nbsp;u32''), (''note'', ''see&nbsp;here'')]"
proof -
  let ?e = "err_info [sp_closed] [note_info [sp_lib]]"
  let ?off = "cfg0\<lparr>rust_syntax_hide_warnings := False\<rparr>"
  let ?st1 = "st0\<lparr>log := [SilentMessage ''/p/src/other.rs'' ''error'' ''mismatched types'',
                          SilentMessage ''/p/src/other.rs'' ''error'' ''unused'']\<rparr>"
  have h: "rust_syntax_hide_warnings cfg0"
    by (simp add: cfg0_def)
  have own: "process_span ed0 cfg lib_view ?e sp_closed (None, st0) = Inr (None, ?st1)" for cfg
    by (simp add: process_span_def resolve_span_def anchor_span_def sp_closed_def
          startswith_def report_silent_message_def Let_def st0_def)
  have hidden: "add_error_phantoms ed0 cfg0 lib_view ''/p/src/lib.rs'' ?e (None, st0) =
      Inr (None, ?st1)"
    by (simp add: add_error_phantoms.simps [of _ _ _ _ ?e] own
          add_error_phantoms.simps [of _ cfg0 _ _ "note_info [sp_lib]"] h)
  have fmt: "format_error ed0 (base_color ?off info) cls lvl msg ex = None" for info cls lvl msg ex
    by (simp add: ed0_def cfg0_def base_color_def brace_free_def)
  have esc: "escape_message ''see here'' = ''see&nbsp;here''"
    "escape_message ''expected u32'' = ''expected&nbsp;u32''"
    by (simp_all add: escape_message_def replace_char_def)
  obtain st2 where child: "process_span ed0 ?off lib_view (note_info [sp_lib]) sp_lib (None, ?st1) =
      Inr (Some (lib_view, span_region ed0 lib_view sp_lib), st2)"
    and ph: "map (\<lambda>ph. (ph_level ph, ph_msg ph)) (phantoms st2) =
      [(''note'', ''expected&nbsp;u32''), (''note'', ''see&nbsp;here'')]"
    by (simp add: process_span_def anchor_span_def Let_def add_primary_message_def
          add_message_def with_parent_def fmt esc note_region_def st0_def)
  have shown: "add_error_phantoms ed0 ?off lib_view ''/p/src/lib.rs'' ?e (None, st0) =
      Inr (Some (lib_view, span_region ed0 lib_view sp_lib), st2)"
    by (simp add: add_error_phantoms.simps [of _ _ _ _ ?e] own
          add_error_phantoms.simps [of _ ?off _ _ "note_info [sp_lib]"] child)
  from h hidden shown ph show ?thesis
    by (simp add: st0_def)
qed

end
